theory Spec2Isabelle
  imports Complex_Main
begin

section \<open>Tensors and framework primitives\<close>

text \<open>
  The agents of \<^verbatim>\<open>td3.py\<close> and \<^verbatim>\<open>bcq.py\<close> are glue over a tensor library.
  A two-dimensional tensor is a list of rows, one row per sample of the batch; floating-point
  numbers are idealised as reals. The layers of the library (linear, convolution) and its
  optimiser are parameters of the model, gathered in the record \<open>torch\<close>: every theorem
  holds for all of them. A module is its configuration together with the list returned by
  \<^verbatim>\<open>parameters()\<close>. Shape errors of the library are not modelled; the errors Python itself
  raises in the code below (arity, attribute lookup, division by zero, missing files,
  state dictionaries that do not fit) are values of \<open>error\<close>.
\<close>

type_synonym tensor = "real list"
type_synonym batch = "tensor list"
type_synonym params = "tensor list"

datatype error =
  TypeError | AttributeError | ZeroDivisionError | FileNotFoundError
  | RuntimeError | ValueError | KeyError

definition bmap :: "(real \<Rightarrow> real) \<Rightarrow> batch \<Rightarrow> batch" where
  "bmap f x = map (map f) x"

definition bmap2 :: "(real \<Rightarrow> real \<Rightarrow> real) \<Rightarrow> batch \<Rightarrow> batch \<Rightarrow> batch" where
  "bmap2 f x y = map2 (map2 f) x y"

definition clamp :: "real \<Rightarrow> real \<Rightarrow> real \<Rightarrow> real" where
  \<comment> \<open>\<^verbatim>\<open>x.clamp(lo, hi)\<close>; where \<open>lo > hi\<close> the library returns \<open>hi\<close>\<close>
  "clamp lo hi x = min (max x lo) hi"

definition relu :: "batch \<Rightarrow> batch" where
  "relu x = bmap (max 0) x"

definition cat1 :: "batch \<Rightarrow> batch \<Rightarrow> batch" where
  \<comment> \<open>\<^verbatim>\<open>torch.cat([x, y], 1)\<close>\<close>
  "cat1 x y = map2 (@) x y"

definition view_rows :: "nat \<Rightarrow> batch \<Rightarrow> batch" where
  \<comment> \<open>\<^verbatim>\<open>x.view(-1, n)\<close>: the same numbers, cut into rows of \<open>n\<close>\<close>
  "view_rows n x =
     (let flat = concat x in map (\<lambda>i. take n (drop (i * n) flat)) [0..<length flat div n])"

definition reshape_rows :: "nat \<Rightarrow> batch \<Rightarrow> batch" where
  \<comment> \<open>\<^verbatim>\<open>x.reshape(n, -1)\<close>: the same numbers, cut into \<open>n\<close> rows\<close>
  "reshape_rows n x =
     (let flat = concat x; w = length flat div n
      in map (\<lambda>i. take w (drop (i * w) flat)) [0..<n])"

definition repeat_interleave :: "nat \<Rightarrow> batch \<Rightarrow> batch" where
  \<comment> \<open>\<^verbatim>\<open>torch.repeat_interleave(x, k, 0)\<close>\<close>
  "repeat_interleave k x = concat (map (replicate k) x)"

definition tensor_mean :: "batch \<Rightarrow> real" where
  "tensor_mean x = sum_list (concat x) / real (length (concat x))"

definition mse_loss :: "batch \<Rightarrow> batch \<Rightarrow> real" where
  "mse_loss x y = tensor_mean (bmap2 (\<lambda>a b. (a - b)\<^sup>2) x y)"

definition row_max :: "tensor \<Rightarrow> real" where
  "row_max r = fold max (tl r) (hd r)"

definition argmax0 :: "batch \<Rightarrow> nat" where
  \<comment> \<open>\<^verbatim>\<open>q.argmax(0)\<close> of a one-column tensor: the first row holding the largest value\<close>
  "argmax0 q =
     (let col = map hd q
      in length (takeWhile (\<lambda>v. v \<noteq> fold max (tl col) (hd col)) col))"

record 'o torch =
  nn_actor_cnn :: "params \<Rightarrow> batch \<Rightarrow> batch"
  nn_actor_fcn :: "params \<Rightarrow> batch \<Rightarrow> batch"
  nn_actor_l1 :: "params \<Rightarrow> batch \<Rightarrow> batch"
  nn_actor_l2 :: "params \<Rightarrow> batch \<Rightarrow> batch"
  nn_critic_cnn :: "params \<Rightarrow> batch \<Rightarrow> batch"
  nn_critic_fcn_1 :: "params \<Rightarrow> batch \<Rightarrow> batch"
  nn_critic_fcn_2 :: "params \<Rightarrow> batch \<Rightarrow> batch"
  nn_critic_l1 :: "params \<Rightarrow> batch \<Rightarrow> batch"
  nn_critic_l2 :: "params \<Rightarrow> batch \<Rightarrow> batch"
  nn_critic_l3 :: "params \<Rightarrow> batch \<Rightarrow> batch"
  nn_critic_l4 :: "params \<Rightarrow> batch \<Rightarrow> batch"
  nn_vae_e1 :: "params \<Rightarrow> batch \<Rightarrow> batch"
  nn_vae_e2 :: "params \<Rightarrow> batch \<Rightarrow> batch"
  nn_vae_mean :: "params \<Rightarrow> batch \<Rightarrow> batch"
  nn_vae_log_std :: "params \<Rightarrow> batch \<Rightarrow> batch"
  nn_vae_d1 :: "params \<Rightarrow> batch \<Rightarrow> batch"
  nn_vae_d2 :: "params \<Rightarrow> batch \<Rightarrow> batch"
  nn_vae_d3 :: "params \<Rightarrow> batch \<Rightarrow> batch"
  optim_step :: "(params \<Rightarrow> real) \<Rightarrow> params \<Rightarrow> 'o \<Rightarrow> params \<times> 'o"

text \<open>
  \<open>optim_step F loss \<theta> s\<close> stands for \<^verbatim>\<open>zero_grad(); loss.backward(); step()\<close> of an Adam
  optimiser holding the parameters \<open>\<theta>\<close> and the internal state \<open>s\<close>, the loss being given
  as a function of these parameters.
\<close>

section \<open>Modules\<close>

record Actor =
  actor_image_obs :: bool
  actor_cnn :: bool
  actor_cnn_out :: nat
  actor_max_action :: real
  actor_parameters :: params

record Critic =
  critic_image_obs :: bool
  critic_cnn :: bool
  critic_cnn_out :: nat
  critic_parameters :: params

record VAE =
  vae_max_action :: real
  vae_latent_dim :: nat
  vae_parameters :: params

record 'o Adam =
  adam_n_params :: nat
  adam_state :: 'o

definition Actor_forward :: "'o torch \<Rightarrow> Actor \<Rightarrow> batch \<Rightarrow> batch" where
  "Actor_forward F self state =
     (let \<theta> = actor_parameters self;
          state1 = (if actor_image_obs self \<and> actor_cnn self
                    then view_rows (actor_cnn_out self) (nn_actor_cnn F \<theta> state)
                    else state);
          state2 = nn_actor_fcn F \<theta> state1;
          a = relu (nn_actor_l1 F \<theta> state2)
      in bmap (\<lambda>x. actor_max_action self * tanh x) (nn_actor_l2 F \<theta> a))"

definition Actor_call :: "'o torch \<Rightarrow> Actor \<Rightarrow> batch list \<Rightarrow> error + batch" where
  \<comment> \<open>calling the module passes the positional arguments on to \<^verbatim>\<open>forward(self, state)\<close>\<close>
  "Actor_call F self args =
     (case args of [state] \<Rightarrow> Inr (Actor_forward F self state) | _ \<Rightarrow> Inl TypeError)"

definition Critic_forward :: "'o torch \<Rightarrow> Critic \<Rightarrow> batch \<Rightarrow> batch \<Rightarrow> batch \<times> batch" where
  "Critic_forward F self state action =
     (let \<theta> = critic_parameters self;
          sa = (if critic_image_obs self \<and> critic_cnn self
                then cat1 (view_rows (critic_cnn_out self) (nn_critic_cnn F \<theta> state)) action
                else cat1 state action);
          q1 = nn_critic_fcn_1 F \<theta> sa;
          q1 = relu (nn_critic_l1 F \<theta> q1);
          q1 = nn_critic_l2 F \<theta> q1;
          q2 = nn_critic_fcn_2 F \<theta> sa;
          q2 = relu (nn_critic_l3 F \<theta> q2);
          q2 = nn_critic_l4 F \<theta> q2
      in (q1, q2))"

definition Critic_Q1 :: "'o torch \<Rightarrow> Critic \<Rightarrow> batch \<Rightarrow> batch \<Rightarrow> batch" where
  "Critic_Q1 F self state action =
     (let \<theta> = critic_parameters self;
          sa = (if critic_image_obs self \<and> critic_cnn self
                then cat1 (view_rows (critic_cnn_out self) (nn_critic_cnn F \<theta> state)) action
                else cat1 state action);
          q1 = nn_critic_fcn_1 F \<theta> sa;
          q1 = relu (nn_critic_l1 F \<theta> q1);
          q1 = nn_critic_l2 F \<theta> q1
      in q1)"

definition Critic_getattr ::
  "string \<Rightarrow> error + ('o torch \<Rightarrow> Critic \<Rightarrow> batch \<Rightarrow> batch \<Rightarrow> batch)" where
  \<comment> \<open>looking up, by name, a method of the critic that returns one tensor: the class
      defines \<^verbatim>\<open>Q1\<close> only\<close>
  "Critic_getattr name = (if name = ''Q1'' then Inr Critic_Q1 else Inl AttributeError)"

definition VAE_decode :: "'o torch \<Rightarrow> VAE \<Rightarrow> batch \<Rightarrow> batch option \<Rightarrow> batch \<Rightarrow> batch" where
  \<comment> \<open>\<open>eps\<close> is the draw of \<^verbatim>\<open>torch.randn\<close>, used when no latent vector is given\<close>
  "VAE_decode F self state z eps =
     (let \<theta> = vae_parameters self;
          z1 = (case z of None \<Rightarrow> bmap (clamp (- 0.5) 0.5) eps | Some z0 \<Rightarrow> z0);
          a = relu (nn_vae_d1 F \<theta> (cat1 state z1));
          a = relu (nn_vae_d2 F \<theta> a)
      in bmap (\<lambda>x. vae_max_action self * tanh x) (nn_vae_d3 F \<theta> a))"

definition VAE_forward ::
  "'o torch \<Rightarrow> VAE \<Rightarrow> batch \<Rightarrow> batch \<Rightarrow> batch \<Rightarrow> batch \<times> batch \<times> batch" where
  \<comment> \<open>\<open>eps\<close> is the draw of \<^verbatim>\<open>torch.randn_like(std)\<close>\<close>
  "VAE_forward F self state action eps =
     (let \<theta> = vae_parameters self;
          z = relu (nn_vae_e1 F \<theta> (cat1 state action));
          z = relu (nn_vae_e2 F \<theta> z);
          mean = nn_vae_mean F \<theta> z;
          log_std = bmap (clamp (- 4) 15) (nn_vae_log_std F \<theta> z);
          std = bmap exp log_std;
          z = bmap2 (+) mean (bmap2 (*) std eps);
          u = VAE_decode F self state (Some z) []
      in (u, mean, std))"

definition polyak :: "real \<Rightarrow> params \<Rightarrow> params \<Rightarrow> params" where
  \<comment> \<open>the loop over \<^verbatim>\<open>zip(net.parameters(), target.parameters())\<close>; target parameters
      beyond the shorter list are not visited\<close>
  "polyak tau ps ts =
     map2 (\<lambda>param target_param. map2 (\<lambda>p t. tau * p + (1 - tau) * t) param target_param) ps ts
     @ drop (length ps) ts"

definition critic_loss :: "'o torch \<Rightarrow> Critic \<Rightarrow> batch \<Rightarrow> batch \<Rightarrow> batch \<Rightarrow> params \<Rightarrow> real" where
  \<comment> \<open>the loss of both agents' critic update, as a function of the critic's parameters\<close>
  "critic_loss F c state action target_Q \<theta> =
     (let (current_Q1, current_Q2) = Critic_forward F (c\<lparr>critic_parameters := \<theta>\<rparr>) state action
      in mse_loss current_Q1 target_Q + mse_loss current_Q2 target_Q)"

section \<open>TD3\<close>

record 'o TD3 =
  td3_actor :: Actor
  td3_actor_target :: Actor
  td3_actor_optimizer :: "'o Adam"
  td3_critic :: Critic
  td3_critic_target :: Critic
  td3_critic_optimizer :: "'o Adam"
  td3_max_action :: real
  td3_image_obs :: bool
  td3_cnn :: bool
  td3_discount :: real
  td3_tau :: real
  td3_policy_noise :: real
  td3_noise_clip :: real
  td3_policy_freq :: int
  td3_total_it :: int

type_synonym transitions = "batch \<times> batch \<times> batch \<times> batch \<times> batch"

definition TD3_select_action :: "'o torch \<Rightarrow> 'o TD3 \<Rightarrow> tensor \<Rightarrow> tensor" where
  \<comment> \<open>both reshapes make the observation the only row of a batch\<close>
  "TD3_select_action F self state = concat (Actor_forward F (td3_actor self) [state])"





section \<open>Saving and loading\<close>

datatype 'o blob = Module_state params | Optimizer_state "'o Adam"

type_synonym 'o files = "string \<Rightarrow> 'o blob option"

definition torch_save :: "'o blob \<Rightarrow> string \<Rightarrow> 'o files \<Rightarrow> 'o files" where
  "torch_save obj f fs = fs(f \<mapsto> obj)"

definition torch_load :: "string \<Rightarrow> 'o files \<Rightarrow> error + 'o blob" where
  "torch_load f fs = (case fs f of None \<Rightarrow> Inl FileNotFoundError | Some b \<Rightarrow> Inr b)"

definition Module_load_state_dict :: "params \<Rightarrow> 'o blob \<Rightarrow> error + params" where
  \<comment> \<open>strict loading: the dictionary must hold tensors of the module's own shapes\<close>
  "Module_load_state_dict \<theta> b =
     (case b of
        Module_state sd \<Rightarrow> if map length sd = map length \<theta> then Inr sd else Inl RuntimeError
      | Optimizer_state _ \<Rightarrow> Inl RuntimeError)"

definition Optimizer_load_state_dict :: "'o Adam \<Rightarrow> 'o blob \<Rightarrow> error + 'o Adam" where
  \<comment> \<open>the saved parameter group must have the size of the optimiser's own\<close>
  "Optimizer_load_state_dict opt b =
     (case b of
        Optimizer_state sd \<Rightarrow>
          if adam_n_params sd = adam_n_params opt then Inr sd else Inl ValueError
      | Module_state _ \<Rightarrow> Inl KeyError)"

definition TD3_save :: "'o TD3 \<Rightarrow> string \<Rightarrow> 'o files \<Rightarrow> 'o files" where
  \<comment> \<open>the line printed to the console is not part of the model\<close>
  "TD3_save self filename fs =
     (let fs = torch_save (Module_state (critic_parameters (td3_critic self)))
                 (filename @ ''_critic'') fs;
          fs = torch_save (Optimizer_state (td3_critic_optimizer self))
                 (filename @ ''_critic_optimizer'') fs;
          fs = torch_save (Module_state (actor_parameters (td3_actor self)))
                 (filename @ ''_actor'') fs;
          fs = torch_save (Optimizer_state (td3_actor_optimizer self))
                 (filename @ ''_actor_optimizer'') fs
      in fs)"

definition TD3_load :: "'o TD3 \<Rightarrow> string \<Rightarrow> 'o files \<Rightarrow> 'o TD3 \<times> error option" where
  \<comment> \<open>the agent after the call and the exception, if the call raised one; the line printed
      to the console is not part of the model\<close>
  "TD3_load self filename fs =
     (case torch_load (filename @ ''_critic'') fs of
        Inl e \<Rightarrow> (self, Some e)
      | Inr b1 \<Rightarrow>
     (case Module_load_state_dict (critic_parameters (td3_critic self)) b1 of
        Inl e \<Rightarrow> (self, Some e)
      | Inr \<theta>c \<Rightarrow>
     (let self = self\<lparr>td3_critic := (td3_critic self)\<lparr>critic_parameters := \<theta>c\<rparr>\<rparr> in
     (case torch_load (filename @ ''_critic_optimizer'') fs of
        Inl e \<Rightarrow> (self, Some e)
      | Inr b2 \<Rightarrow>
     (case Optimizer_load_state_dict (td3_critic_optimizer self) b2 of
        Inl e \<Rightarrow> (self, Some e)
      | Inr oc \<Rightarrow>
     (let self = self\<lparr>td3_critic_optimizer := oc\<rparr>;
          self = self\<lparr>td3_critic_target := td3_critic self\<rparr> in
     (case torch_load (filename @ ''_actor'') fs of
        Inl e \<Rightarrow> (self, Some e)
      | Inr b3 \<Rightarrow>
     (case Module_load_state_dict (actor_parameters (td3_actor self)) b3 of
        Inl e \<Rightarrow> (self, Some e)
      | Inr \<theta>a \<Rightarrow>
     (let self = self\<lparr>td3_actor := (td3_actor self)\<lparr>actor_parameters := \<theta>a\<rparr>\<rparr> in
     (case torch_load (filename @ ''_actor_optimizer'') fs of
        Inl e \<Rightarrow> (self, Some e)
      | Inr b4 \<Rightarrow>
     (case Optimizer_load_state_dict (td3_actor_optimizer self) b4 of
        Inl e \<Rightarrow> (self, Some e)
      | Inr oa \<Rightarrow>
     (let self = self\<lparr>td3_actor_optimizer := oa\<rparr>;
          self = self\<lparr>td3_actor_target := td3_actor self\<rparr>
      in (self, None)))))))))))))"

section \<open>BCQ\<close>

record 'o BCQ =
  bcq_actor :: Actor
  bcq_actor_target :: Actor
  bcq_actor_optimizer :: "'o Adam"
  bcq_critic :: Critic
  bcq_critic_target :: Critic
  bcq_critic_optimizer :: "'o Adam"
  bcq_vae :: VAE
  bcq_vae_optimizer :: "'o Adam"
  bcq_max_action :: real
  bcq_image_obs :: bool
  bcq_cnn :: bool
  bcq_action_dim :: nat
  bcq_discount :: real
  bcq_tau :: real
  bcq_lmbda :: real
  bcq_policy_noise :: real
  bcq_noise_clip :: real
  bcq_policy_freq :: int
  bcq_total_it :: int

definition BCQ_select_action :: "'o torch \<Rightarrow> 'o BCQ \<Rightarrow> tensor \<Rightarrow> batch \<Rightarrow> error + tensor" where
  \<comment> \<open>\<open>eps\<close> is the draw of \<^verbatim>\<open>torch.randn\<close> inside \<^verbatim>\<open>decode\<close>\<close>
  "BCQ_select_action F self state eps =
     (let state = replicate 100 state in
      case Actor_call F (bcq_actor self) [state, VAE_decode F (bcq_vae self) state None eps] of
        Inl e \<Rightarrow> Inl e
      | Inr action \<Rightarrow>
          (case Critic_getattr ''q1'' of
             Inl e \<Rightarrow> Inl e
           | Inr q1_method \<Rightarrow>
               (let q1 = q1_method F (bcq_critic self) state action;
                    ind = argmax0 q1
                in Inr (action ! ind))))"

definition BCQ_vae_loss :: "'o torch \<Rightarrow> VAE \<Rightarrow> batch \<Rightarrow> batch \<Rightarrow> batch \<Rightarrow> params \<Rightarrow> real" where
  "BCQ_vae_loss F v state action eps \<theta> =
     (let (recon, mean, std) = VAE_forward F (v\<lparr>vae_parameters := \<theta>\<rparr>) state action eps;
          recon_loss = mse_loss recon action;
          KL_loss = - 0.5 * tensor_mean (bmap2 (\<lambda>m s. 1 + ln (s\<^sup>2) - m\<^sup>2 - s\<^sup>2) mean std);
          vae_loss = recon_loss + 0.5 * KL_loss
      in vae_loss)"

definition BCQ_target_Q ::
  "'o torch \<Rightarrow> 'o BCQ \<Rightarrow> nat \<Rightarrow> batch \<Rightarrow> batch \<Rightarrow> batch \<Rightarrow> batch \<Rightarrow> error + batch" where
  \<comment> \<open>the block under \<^verbatim>\<open>torch.no_grad()\<close>; \<open>eps\<close> is the draw inside \<^verbatim>\<open>decode\<close>\<close>
  "BCQ_target_Q F self batch_size next_state reward not_done eps =
     (let next_state = repeat_interleave 10 next_state in
      case Actor_call F (bcq_actor_target self)
             [next_state, VAE_decode F (bcq_vae self) next_state None eps] of
        Inl e \<Rightarrow> Inl e
      | Inr a \<Rightarrow>
          (let (target_Q1, target_Q2) = Critic_forward F (bcq_critic_target self) next_state a;
               target_Q = bmap2 (+) (bmap (\<lambda>x. bcq_lmbda self * x) (bmap2 min target_Q1 target_Q2))
                            (bmap (\<lambda>x. (1 - bcq_lmbda self) * x) (bmap2 max target_Q1 target_Q2));
               target_Q = map (\<lambda>r. [row_max r]) (reshape_rows batch_size target_Q)
           in Inr (bmap2 (+) reward
                     (bmap2 (*) (bmap (\<lambda>x. x * bcq_discount self) not_done) target_Q))))"

definition BCQ_actor_loss ::
  "'o torch \<Rightarrow> ('o torch \<Rightarrow> Critic \<Rightarrow> batch \<Rightarrow> batch \<Rightarrow> batch) \<Rightarrow> 'o BCQ \<Rightarrow> batch \<Rightarrow> batch
     \<Rightarrow> params \<Rightarrow> real" where
  "BCQ_actor_loss F q1_method self state sampled_actions \<theta> =
     (case Actor_call F ((bcq_actor self)\<lparr>actor_parameters := \<theta>\<rparr>) [state, sampled_actions] of
        Inl e \<Rightarrow> 0
      | Inr perturbed_actions \<Rightarrow>
          - tensor_mean (q1_method F (bcq_critic self) state perturbed_actions))"

definition BCQ_train_iteration ::
  "'o torch \<Rightarrow> 'o BCQ \<Rightarrow> nat \<Rightarrow> transitions \<Rightarrow> batch \<times> batch \<times> batch \<Rightarrow> 'o BCQ \<times> error option"
  where
  \<comment> \<open>the body of the loop; \<open>batch\<close> is what the replay buffer returned, \<open>eps\<close> the three draws
      of random numbers in the order the body makes them\<close>
  "BCQ_train_iteration F self batch_size batch eps =
     (let (state, action, next_state, reward, not_done) = batch;
          (eps_vae, eps_next, eps_state) = eps;
          (\<theta>v, sv) = optim_step F (BCQ_vae_loss F (bcq_vae self) state action eps_vae)
                       (vae_parameters (bcq_vae self)) (adam_state (bcq_vae_optimizer self));
          self = self\<lparr>bcq_vae := (bcq_vae self)\<lparr>vae_parameters := \<theta>v\<rparr>,
                      bcq_vae_optimizer := (bcq_vae_optimizer self)\<lparr>adam_state := sv\<rparr>\<rparr>
      in case BCQ_target_Q F self batch_size next_state reward not_done eps_next of
           Inl e \<Rightarrow> (self, Some e)
         | Inr target_Q \<Rightarrow>
             (let (\<theta>c, sc) = optim_step F (critic_loss F (bcq_critic self) state action target_Q)
                               (critic_parameters (bcq_critic self))
                               (adam_state (bcq_critic_optimizer self));
                  self = self\<lparr>bcq_critic := (bcq_critic self)\<lparr>critic_parameters := \<theta>c\<rparr>,
                              bcq_critic_optimizer :=
                                (bcq_critic_optimizer self)\<lparr>adam_state := sc\<rparr>\<rparr>;
                  sampled_actions = VAE_decode F (bcq_vae self) state None eps_state
              in case Actor_call F (bcq_actor self) [state, sampled_actions] of
                   Inl e \<Rightarrow> (self, Some e)
                 | Inr perturbed_actions \<Rightarrow>
                     (case Critic_getattr ''q1'' of
                        Inl e \<Rightarrow> (self, Some e)
                      | Inr q1_method \<Rightarrow>
                          (let (\<theta>a, sa) =
                                 optim_step F (BCQ_actor_loss F q1_method self state sampled_actions)
                                   (actor_parameters (bcq_actor self))
                                   (adam_state (bcq_actor_optimizer self));
                               self = self\<lparr>bcq_actor :=
                                             (bcq_actor self)\<lparr>actor_parameters := \<theta>a\<rparr>,
                                           bcq_actor_optimizer :=
                                             (bcq_actor_optimizer self)\<lparr>adam_state := sa\<rparr>\<rparr>;
                               self = self\<lparr>bcq_critic_target := (bcq_critic_target self)
                                        \<lparr>critic_parameters :=
                                           polyak (bcq_tau self)
                                             (critic_parameters (bcq_critic self))
                                             (critic_parameters (bcq_critic_target self))\<rparr>\<rparr>;
                               self = self\<lparr>bcq_actor_target := (bcq_actor_target self)
                                        \<lparr>actor_parameters :=
                                           polyak (bcq_tau self)
                                             (actor_parameters (bcq_actor self))
                                             (actor_parameters (bcq_actor_target self))\<rparr>\<rparr>
                           in (self, None)))))"

fun BCQ_train_loop ::
  "'o torch \<Rightarrow> 'o BCQ \<Rightarrow> nat \<Rightarrow> (nat \<Rightarrow> transitions) \<Rightarrow> (nat \<Rightarrow> batch \<times> batch \<times> batch)
     \<Rightarrow> nat list \<Rightarrow> 'o BCQ \<times> error option" where
  "BCQ_train_loop F self batch_size sample rng [] = (self, None)"
| "BCQ_train_loop F self batch_size sample rng (it # its) =
     (case BCQ_train_iteration F self batch_size (sample it) (rng it) of
        (self', Some e) \<Rightarrow> (self', Some e)
      | (self', None) \<Rightarrow> BCQ_train_loop F self' batch_size sample rng its)"

definition BCQ_train ::
  "'o torch \<Rightarrow> 'o BCQ \<Rightarrow> (nat \<Rightarrow> transitions) \<Rightarrow> (nat \<Rightarrow> batch \<times> batch \<times> batch) \<Rightarrow> int \<Rightarrow> nat
     \<Rightarrow> 'o BCQ \<times> error option" where
  \<comment> \<open>\<open>sample it\<close> and \<open>rng it\<close> are the batch and the random numbers of iteration \<open>it\<close>;
      \<^verbatim>\<open>range(iterations)\<close> is empty for a negative number\<close>
  "BCQ_train F self sample rng iterations batch_size =
     BCQ_train_loop F self batch_size sample rng [0..<nat iterations]"

definition BCQ_save :: "'o BCQ \<Rightarrow> string \<Rightarrow> 'o files \<Rightarrow> 'o files" where
  "BCQ_save self filename fs =
     (let fs = torch_save (Module_state (critic_parameters (bcq_critic self)))
                 (filename @ ''_critic'') fs;
          fs = torch_save (Optimizer_state (bcq_critic_optimizer self))
                 (filename @ ''_critic_optimizer'') fs;
          fs = torch_save (Module_state (actor_parameters (bcq_actor self)))
                 (filename @ ''_actor'') fs;
          fs = torch_save (Optimizer_state (bcq_actor_optimizer self))
                 (filename @ ''_actor_optimizer'') fs
      in fs)"

definition BCQ_load :: "'o BCQ \<Rightarrow> string \<Rightarrow> 'o files \<Rightarrow> 'o BCQ \<times> error option" where
  "BCQ_load self filename fs =
     (case torch_load (filename @ ''_critic'') fs of
        Inl e \<Rightarrow> (self, Some e)
      | Inr b1 \<Rightarrow>
     (case Module_load_state_dict (critic_parameters (bcq_critic self)) b1 of
        Inl e \<Rightarrow> (self, Some e)
      | Inr \<theta>c \<Rightarrow>
     (let self = self\<lparr>bcq_critic := (bcq_critic self)\<lparr>critic_parameters := \<theta>c\<rparr>\<rparr> in
     (case torch_load (filename @ ''_critic_optimizer'') fs of
        Inl e \<Rightarrow> (self, Some e)
      | Inr b2 \<Rightarrow>
     (case Optimizer_load_state_dict (bcq_critic_optimizer self) b2 of
        Inl e \<Rightarrow> (self, Some e)
      | Inr oc \<Rightarrow>
     (let self = self\<lparr>bcq_critic_optimizer := oc\<rparr>;
          self = self\<lparr>bcq_critic_target := bcq_critic self\<rparr> in
     (case torch_load (filename @ ''_actor'') fs of
        Inl e \<Rightarrow> (self, Some e)
      | Inr b3 \<Rightarrow>
     (case Module_load_state_dict (actor_parameters (bcq_actor self)) b3 of
        Inl e \<Rightarrow> (self, Some e)
      | Inr \<theta>a \<Rightarrow>
     (let self = self\<lparr>bcq_actor := (bcq_actor self)\<lparr>actor_parameters := \<theta>a\<rparr>\<rparr> in
     (case torch_load (filename @ ''_actor_optimizer'') fs of
        Inl e \<Rightarrow> (self, Some e)
      | Inr b4 \<Rightarrow>
     (case Optimizer_load_state_dict (bcq_actor_optimizer self) b4 of
        Inl e \<Rightarrow> (self, Some e)
      | Inr oa \<Rightarrow>
     (let self = self\<lparr>bcq_actor_optimizer := oa\<rparr>;
          self = self\<lparr>bcq_actor_target := bcq_actor self\<rparr>
      in (self, None)))))))))))))"

section \<open>Concrete instances\<close>

text \<open>
  A library whose layers are the identity and whose optimiser subtracts the loss from every
  parameter, and small agents over it: the inputs at which the theorems below are applied.
\<close>

definition example_torch :: "nat torch" where
  "example_torch = \<lparr>nn_actor_cnn = (\<lambda>\<theta> x. x), nn_actor_fcn = (\<lambda>\<theta> x. x), nn_actor_l1 = (\<lambda>\<theta> x. x),
     nn_actor_l2 = (\<lambda>\<theta> x. x), nn_critic_cnn = (\<lambda>\<theta> x. x), nn_critic_fcn_1 = (\<lambda>\<theta> x. x),
     nn_critic_fcn_2 = (\<lambda>\<theta> x. x), nn_critic_l1 = (\<lambda>\<theta> x. x), nn_critic_l2 = (\<lambda>\<theta> x. x),
     nn_critic_l3 = (\<lambda>\<theta> x. x), nn_critic_l4 = (\<lambda>\<theta> x. x), nn_vae_e1 = (\<lambda>\<theta> x. x),
     nn_vae_e2 = (\<lambda>\<theta> x. x), nn_vae_mean = (\<lambda>\<theta> x. x), nn_vae_log_std = (\<lambda>\<theta> x. x),
     nn_vae_d1 = (\<lambda>\<theta> x. x), nn_vae_d2 = (\<lambda>\<theta> x. x), nn_vae_d3 = (\<lambda>\<theta> x. x),
     optim_step = (\<lambda>loss \<theta> s. (map (map (\<lambda>p. p - loss \<theta>)) \<theta>, Suc s))\<rparr>"

definition example_actor :: Actor where
  "example_actor = \<lparr>actor_image_obs = False, actor_cnn = False, actor_cnn_out = 16,
     actor_max_action = 2, actor_parameters = [[1, 2], [3]]\<rparr>"

definition example_critic :: Critic where
  "example_critic = \<lparr>critic_image_obs = False, critic_cnn = False, critic_cnn_out = 16,
     critic_parameters = [[4], [5, 6]]\<rparr>"

definition example_vae :: VAE where
  "example_vae = \<lparr>vae_max_action = 2, vae_latent_dim = 2, vae_parameters = [[5], [6, 7]]\<rparr>"

definition example_td3 :: "nat TD3" where
  "example_td3 = \<lparr>td3_actor = example_actor,
     td3_actor_target = example_actor\<lparr>actor_parameters := [[0, 0], [1]]\<rparr>,
     td3_actor_optimizer = \<lparr>adam_n_params = 2, adam_state = 7\<rparr>,
     td3_critic = example_critic,
     td3_critic_target = example_critic\<lparr>critic_parameters := [[2], [3, 3]]\<rparr>,
     td3_critic_optimizer = \<lparr>adam_n_params = 2, adam_state = 9\<rparr>,
     td3_max_action = 2, td3_image_obs = False, td3_cnn = False, td3_discount = 1 / 2,
     td3_tau = 1 / 4, td3_policy_noise = 1 / 5, td3_noise_clip = 1 / 2, td3_policy_freq = 2,
     td3_total_it = 1\<rparr>"

definition example_bcq :: "nat BCQ" where
  "example_bcq = \<lparr>bcq_actor = example_actor,
     bcq_actor_target = example_actor\<lparr>actor_parameters := [[0, 0], [1]]\<rparr>,
     bcq_actor_optimizer = \<lparr>adam_n_params = 2, adam_state = 7\<rparr>,
     bcq_critic = example_critic,
     bcq_critic_target = example_critic\<lparr>critic_parameters := [[2], [3, 3]]\<rparr>,
     bcq_critic_optimizer = \<lparr>adam_n_params = 2, adam_state = 9\<rparr>,
     bcq_vae = example_vae,
     bcq_vae_optimizer = \<lparr>adam_n_params = 2, adam_state = 3\<rparr>,
     bcq_max_action = 2, bcq_image_obs = False, bcq_cnn = False, bcq_action_dim = 1,
     bcq_discount = 1 / 2, bcq_tau = 1 / 4, bcq_lmbda = 3 / 4, bcq_policy_noise = 1 / 5,
     bcq_noise_clip = 1 / 2, bcq_policy_freq = 2, bcq_total_it = 0\<rparr>"

definition example_td3_fresh :: "nat TD3" where
  \<comment> \<open>an agent of the configuration of \<open>example_td3\<close> that has not been trained\<close>
  "example_td3_fresh = example_td3
     \<lparr>td3_actor := example_actor\<lparr>actor_parameters := [[0, 0], [0]]\<rparr>,
      td3_actor_target := example_actor\<lparr>actor_parameters := [[0, 0], [0]]\<rparr>,
      td3_actor_optimizer := \<lparr>adam_n_params = 2, adam_state = 0\<rparr>,
      td3_critic := example_critic\<lparr>critic_parameters := [[0], [0, 0]]\<rparr>,
      td3_critic_target := example_critic\<lparr>critic_parameters := [[0], [0, 0]]\<rparr>,
      td3_critic_optimizer := \<lparr>adam_n_params = 2, adam_state = 0\<rparr>,
      td3_total_it := 0\<rparr>"

definition example_bcq_fresh :: "nat BCQ" where
  \<comment> \<open>an agent of the configuration of \<open>example_bcq\<close> that has not been trained\<close>
  "example_bcq_fresh = example_bcq
     \<lparr>bcq_actor := example_actor\<lparr>actor_parameters := [[0, 0], [0]]\<rparr>,
      bcq_actor_target := example_actor\<lparr>actor_parameters := [[0, 0], [0]]\<rparr>,
      bcq_actor_optimizer := \<lparr>adam_n_params = 2, adam_state = 0\<rparr>,
      bcq_critic := example_critic\<lparr>critic_parameters := [[0], [0, 0]]\<rparr>,
      bcq_critic_target := example_critic\<lparr>critic_parameters := [[0], [0, 0]]\<rparr>,
      bcq_critic_optimizer := \<lparr>adam_n_params = 2, adam_state = 0\<rparr>,
      bcq_vae := example_vae\<lparr>vae_parameters := [[0], [0, 0]]\<rparr>,
      bcq_vae_optimizer := \<lparr>adam_n_params = 2, adam_state = 0\<rparr>\<rparr>"

definition example_bcq_other_vae :: "nat BCQ" where
  \<comment> \<open>\<open>example_bcq\<close> with another VAE and another state of the VAE's optimiser\<close>
  "example_bcq_other_vae = example_bcq
     \<lparr>bcq_vae := example_vae\<lparr>vae_parameters := [[0], [0, 0]]\<rparr>,
      bcq_vae_optimizer := \<lparr>adam_n_params = 2, adam_state = 0\<rparr>\<rparr>"




definition example_td3_stale :: "nat TD3" where
  \<comment> \<open>an agent of the configuration of \<open>example_td3\<close> whose targets differ from its networks\<close>
  "example_td3_stale = example_td3_fresh
     \<lparr>td3_actor_target := example_actor\<lparr>actor_parameters := [[7, 7], [7]]\<rparr>,
      td3_critic_target := example_critic\<lparr>critic_parameters := [[8], [8, 8]]\<rparr>\<rparr>"

definition example_bcq_stale :: "nat BCQ" where
  \<comment> \<open>an agent of the configuration of \<open>example_bcq\<close> whose targets differ from its networks\<close>
  "example_bcq_stale = example_bcq_fresh
     \<lparr>bcq_actor_target := example_actor\<lparr>actor_parameters := [[7, 7], [7]]\<rparr>,
      bcq_critic_target := example_critic\<lparr>critic_parameters := [[8], [8, 8]]\<rparr>\<rparr>"

section \<open>The claims' words\<close>





section \<open>Auxiliary facts\<close>



lemma clamp_bounds: "lo \<le> hi \<Longrightarrow> lo \<le> clamp lo hi x \<and> clamp lo hi x \<le> hi"
  by (simp add: clamp_def)

lemma Actor_call_two_arguments: "Actor_call F a [x, y] = Inl TypeError"
  by (simp add: Actor_call_def)

lemma Actor_call_one_argument: "Actor_call F a [x] = Inr (Actor_forward F a x)"
  by (simp add: Actor_call_def)

lemma Critic_getattr_q1: "Critic_getattr ''q1'' = Inl AttributeError"
  by (simp add: Critic_getattr_def)



lemma scaled_tanh_bounds: "0 \<le> m \<Longrightarrow> - m \<le> m * tanh (x::real) \<and> m * tanh x \<le> m"
proof -
  assume m: "0 \<le> m"
  have lo: "- 1 \<le> tanh x" and hi: "tanh x \<le> 1"
    using tanh_real_gt_neg1 [of x] tanh_real_lt_1 [of x] by simp_all
  have "m * (- 1) \<le> m * tanh x" using lo m by (rule mult_left_mono)
  moreover have "m * tanh x \<le> m * 1" using hi m by (rule mult_left_mono)
  ultimately show ?thesis by simp
qed

lemma bmap_elem: "row \<in> set (bmap f x) \<Longrightarrow> v \<in> set row \<Longrightarrow> \<exists>u. v = f u"
  by (auto simp: bmap_def)

lemma Actor_forward_bound:
  assumes "0 \<le> actor_max_action a" "row \<in> set (Actor_forward F a s)" "v \<in> set row"
  shows "- actor_max_action a \<le> v \<and> v \<le> actor_max_action a"
proof -
  obtain u where "v = actor_max_action a * tanh u"
    using assms(2,3) unfolding Actor_forward_def Let_def by (blast dest: bmap_elem)
  then show ?thesis using scaled_tanh_bounds [OF assms(1)] by simp
qed

lemma VAE_decode_bound:
  assumes "0 \<le> vae_max_action d" "row \<in> set (VAE_decode F d s z eps)" "v \<in> set row"
  shows "- vae_max_action d \<le> v \<and> v \<le> vae_max_action d"
proof -
  obtain u where "v = vae_max_action d * tanh u"
    using assms(2,3) unfolding VAE_decode_def Let_def by (blast dest: bmap_elem)
  then show ?thesis using scaled_tanh_bounds [OF assms(1)] by simp
qed

lemma BCQ_train_iteration_raises:
  "BCQ_train_iteration F ag batch_size batch eps =
     (ag\<lparr>bcq_vae := (bcq_vae ag)\<lparr>vae_parameters :=
            fst (optim_step F (BCQ_vae_loss F (bcq_vae ag) (fst batch) (fst (snd batch)) (fst eps))
                   (vae_parameters (bcq_vae ag)) (adam_state (bcq_vae_optimizer ag)))\<rparr>,
         bcq_vae_optimizer := (bcq_vae_optimizer ag)\<lparr>adam_state :=
            snd (optim_step F (BCQ_vae_loss F (bcq_vae ag) (fst batch) (fst (snd batch)) (fst eps))
                   (vae_parameters (bcq_vae ag)) (adam_state (bcq_vae_optimizer ag)))\<rparr>\<rparr>,
      Some TypeError)"
  by (simp add: BCQ_train_iteration_def BCQ_target_Q_def Actor_call_two_arguments
      Let_def split_beta)

lemma BCQ_train_loop_Cons:
  "BCQ_train_loop F ag batch_size sample rng (it # its) =
     BCQ_train_iteration F ag batch_size (sample it) (rng it)"
  by (simp add: BCQ_train_iteration_raises)





lemma TD3_save_files:
  "TD3_save ag fn fs =
     fs(fn @ ''_critic'' \<mapsto> Module_state (critic_parameters (td3_critic ag)),
        fn @ ''_critic_optimizer'' \<mapsto> Optimizer_state (td3_critic_optimizer ag),
        fn @ ''_actor'' \<mapsto> Module_state (actor_parameters (td3_actor ag)),
        fn @ ''_actor_optimizer'' \<mapsto> Optimizer_state (td3_actor_optimizer ag))"
  by (simp add: TD3_save_def torch_save_def)

lemma BCQ_save_files:
  "BCQ_save ag fn fs =
     fs(fn @ ''_critic'' \<mapsto> Module_state (critic_parameters (bcq_critic ag)),
        fn @ ''_critic_optimizer'' \<mapsto> Optimizer_state (bcq_critic_optimizer ag),
        fn @ ''_actor'' \<mapsto> Module_state (actor_parameters (bcq_actor ag)),
        fn @ ''_actor_optimizer'' \<mapsto> Optimizer_state (bcq_actor_optimizer ag))"
  by (simp add: BCQ_save_def torch_save_def)

lemma TD3_load_saved:
  assumes "map length (critic_parameters (td3_critic ag)) =
           map length (critic_parameters (td3_critic ag2))"
    and "map length (actor_parameters (td3_actor ag)) =
         map length (actor_parameters (td3_actor ag2))"
    and "adam_n_params (td3_critic_optimizer ag) = adam_n_params (td3_critic_optimizer ag2)"
    and "adam_n_params (td3_actor_optimizer ag) = adam_n_params (td3_actor_optimizer ag2)"
  shows "TD3_load ag2 fn (TD3_save ag fn fs) =
          (ag2\<lparr>td3_critic := (td3_critic ag2)
                   \<lparr>critic_parameters := critic_parameters (td3_critic ag)\<rparr>,
                td3_critic_optimizer := td3_critic_optimizer ag,
                td3_critic_target := (td3_critic ag2)
                   \<lparr>critic_parameters := critic_parameters (td3_critic ag)\<rparr>,
                td3_actor := (td3_actor ag2)
                   \<lparr>actor_parameters := actor_parameters (td3_actor ag)\<rparr>,
                td3_actor_optimizer := td3_actor_optimizer ag,
                td3_actor_target := (td3_actor ag2)
                   \<lparr>actor_parameters := actor_parameters (td3_actor ag)\<rparr>\<rparr>, None)"
  using assms
  by (simp add: TD3_load_def TD3_save_files torch_load_def Module_load_state_dict_def
      Optimizer_load_state_dict_def)

lemma BCQ_load_saved:
  assumes "map length (critic_parameters (bcq_critic ag)) =
           map length (critic_parameters (bcq_critic ag2))"
    and "map length (actor_parameters (bcq_actor ag)) =
         map length (actor_parameters (bcq_actor ag2))"
    and "adam_n_params (bcq_critic_optimizer ag) = adam_n_params (bcq_critic_optimizer ag2)"
    and "adam_n_params (bcq_actor_optimizer ag) = adam_n_params (bcq_actor_optimizer ag2)"
  shows "BCQ_load ag2 fn (BCQ_save ag fn fs) =
          (ag2\<lparr>bcq_critic := (bcq_critic ag2)
                   \<lparr>critic_parameters := critic_parameters (bcq_critic ag)\<rparr>,
                bcq_critic_optimizer := bcq_critic_optimizer ag,
                bcq_critic_target := (bcq_critic ag2)
                   \<lparr>critic_parameters := critic_parameters (bcq_critic ag)\<rparr>,
                bcq_actor := (bcq_actor ag2)
                   \<lparr>actor_parameters := actor_parameters (bcq_actor ag)\<rparr>,
                bcq_actor_optimizer := bcq_actor_optimizer ag,
                bcq_actor_target := (bcq_actor ag2)
                   \<lparr>actor_parameters := actor_parameters (bcq_actor ag)\<rparr>\<rparr>, None)"
  using assms
  by (simp add: BCQ_load_def BCQ_save_files torch_load_def Module_load_state_dict_def
      Optimizer_load_state_dict_def)










lemma TD3_load_returns:
  assumes "snd (TD3_load ag fn fs) = None"
  shows "fs (fn @ ''_actor'')
           = Some (Module_state (actor_parameters (td3_actor (fst (TD3_load ag fn fs)))))
     \<and> fs (fn @ ''_critic'')
           = Some (Module_state (critic_parameters (td3_critic (fst (TD3_load ag fn fs)))))
     \<and> td3_actor (fst (TD3_load ag fn fs)) = (td3_actor ag)
           \<lparr>actor_parameters := actor_parameters (td3_actor (fst (TD3_load ag fn fs)))\<rparr>
     \<and> td3_critic (fst (TD3_load ag fn fs)) = (td3_critic ag)
           \<lparr>critic_parameters := critic_parameters (td3_critic (fst (TD3_load ag fn fs)))\<rparr>
     \<and> td3_actor_target (fst (TD3_load ag fn fs)) = td3_actor (fst (TD3_load ag fn fs))
     \<and> td3_critic_target (fst (TD3_load ag fn fs)) = td3_critic (fst (TD3_load ag fn fs))
     \<and> TD3_load (ag\<lparr>td3_actor_target := ta, td3_critic_target := tc\<rparr>) fn fs = TD3_load ag fn fs"
  using assms
  by (auto simp add: TD3_load_def torch_load_def Module_load_state_dict_def
      Optimizer_load_state_dict_def Let_def
      split: sum.splits option.splits blob.splits if_splits)

lemma TD3_load_fitting:
  assumes "fs (fn @ ''_critic'') = Some (Module_state pc)"
    and "map length pc = map length (critic_parameters (td3_critic ag))"
    and "fs (fn @ ''_critic_optimizer'') = Some (Optimizer_state oc)"
    and "adam_n_params oc = adam_n_params (td3_critic_optimizer ag)"
    and "fs (fn @ ''_actor'') = Some (Module_state pa)"
    and "map length pa = map length (actor_parameters (td3_actor ag))"
    and "fs (fn @ ''_actor_optimizer'') = Some (Optimizer_state oa)"
    and "adam_n_params oa = adam_n_params (td3_actor_optimizer ag)"
  shows "snd (TD3_load ag fn fs) = None
     \<and> td3_actor_target (fst (TD3_load ag fn fs)) = (td3_actor ag)\<lparr>actor_parameters := pa\<rparr>
     \<and> td3_critic_target (fst (TD3_load ag fn fs)) = (td3_critic ag)\<lparr>critic_parameters := pc\<rparr>"
  using assms
  by (simp add: TD3_load_def torch_load_def Module_load_state_dict_def
      Optimizer_load_state_dict_def)

lemma BCQ_load_returns:
  assumes "snd (BCQ_load ag fn fs) = None"
  shows "fs (fn @ ''_actor'')
           = Some (Module_state (actor_parameters (bcq_actor (fst (BCQ_load ag fn fs)))))
     \<and> fs (fn @ ''_critic'')
           = Some (Module_state (critic_parameters (bcq_critic (fst (BCQ_load ag fn fs)))))
     \<and> bcq_actor (fst (BCQ_load ag fn fs)) = (bcq_actor ag)
           \<lparr>actor_parameters := actor_parameters (bcq_actor (fst (BCQ_load ag fn fs)))\<rparr>
     \<and> bcq_critic (fst (BCQ_load ag fn fs)) = (bcq_critic ag)
           \<lparr>critic_parameters := critic_parameters (bcq_critic (fst (BCQ_load ag fn fs)))\<rparr>
     \<and> bcq_actor_target (fst (BCQ_load ag fn fs)) = bcq_actor (fst (BCQ_load ag fn fs))
     \<and> bcq_critic_target (fst (BCQ_load ag fn fs)) = bcq_critic (fst (BCQ_load ag fn fs))
     \<and> BCQ_load (ag\<lparr>bcq_actor_target := ta, bcq_critic_target := tc\<rparr>) fn fs = BCQ_load ag fn fs"
  using assms
  by (auto simp add: BCQ_load_def torch_load_def Module_load_state_dict_def
      Optimizer_load_state_dict_def Let_def
      split: sum.splits option.splits blob.splits if_splits)

lemma BCQ_load_fitting:
  assumes "fs (fn @ ''_critic'') = Some (Module_state pc)"
    and "map length pc = map length (critic_parameters (bcq_critic ag))"
    and "fs (fn @ ''_critic_optimizer'') = Some (Optimizer_state oc)"
    and "adam_n_params oc = adam_n_params (bcq_critic_optimizer ag)"
    and "fs (fn @ ''_actor'') = Some (Module_state pa)"
    and "map length pa = map length (actor_parameters (bcq_actor ag))"
    and "fs (fn @ ''_actor_optimizer'') = Some (Optimizer_state oa)"
    and "adam_n_params oa = adam_n_params (bcq_actor_optimizer ag)"
  shows "snd (BCQ_load ag fn fs) = None
     \<and> bcq_actor_target (fst (BCQ_load ag fn fs)) = (bcq_actor ag)\<lparr>actor_parameters := pa\<rparr>
     \<and> bcq_critic_target (fst (BCQ_load ag fn fs)) = (bcq_critic ag)\<lparr>critic_parameters := pc\<rparr>"
  using assms
  by (simp add: BCQ_load_def torch_load_def Module_load_state_dict_def
      Optimizer_load_state_dict_def)

section \<open>The claims\<close>






text \<open>
  C3. \<open>BCQ.select_action\<close> is meant to decode 100 candidate actions, perturb them with the
  actor, score them with the critic's first head and return the best one. In the code the
  actor is called with two arguments, the state and the decoded actions, while its
  \<open>forward\<close> takes the state only: the call raises \<open>TypeError\<close> for every state, and no
  action is returned. (The method \<open>q1\<close> looked up on the critic next does not exist
  either: the class defines \<open>Q1\<close>.)
\<close>

theorem BCQ_select_action_raises: "BCQ_select_action F ag state eps = Inl TypeError"
  by (simp add: BCQ_select_action_def Actor_call_two_arguments)

text \<open>
  C4. The block of \<open>BCQ.train\<close> that computes the critic's target repeats each next state
  10 times and then calls the target actor with two arguments: no target is computed, the
  call raises \<open>TypeError\<close> for every batch.
\<close>

theorem BCQ_target_Q_raises:
  "BCQ_target_Q F ag batch_size next_state reward not_done eps = Inl TypeError"
  by (simp add: BCQ_target_Q_def Actor_call_two_arguments)

text \<open>
  C5. The target networks are meant to move by the Polyak rule \<open>polyak\<close>, and by nothing
  else, in every \<open>policy_freq\<close>-th call of \<open>TD3.train\<close> and in every iteration of
  \<open>BCQ.train\<close>. \<open>TD3.train\<close> does so (C1). \<open>BCQ.train\<close> never reaches its loop over the
  target parameters: whatever the number of iterations, both target networks are after the
  call what they were before it.
\<close>

theorem BCQ_train_keeps_targets:
  "bcq_critic_target (fst (BCQ_train F ag sample rng iterations batch_size)) = bcq_critic_target ag
   \<and> bcq_actor_target (fst (BCQ_train F ag sample rng iterations batch_size)) = bcq_actor_target ag"
proof (cases "[0..<nat iterations]")
  case Nil
  then show ?thesis by (simp add: BCQ_train_def)
next
  case (Cons it its)
  then show ?thesis
    by (simp add: BCQ_train_def BCQ_train_loop_Cons BCQ_train_iteration_raises)
qed

text \<open>
  C6, as the code has it. \<open>save\<close> of either agent writes four files, named by the prefix
  followed by \<open>_critic\<close>, \<open>_critic_optimizer\<close>, \<open>_actor\<close> and \<open>_actor_optimizer\<close>, which
  hold the parameters of the critic and of the actor and the states of their optimisers; every
  other file is left as it was, and the agent is only read. What is written depends neither on
  the target networks nor, for BCQ, on the VAE and its optimiser: these are not persisted.
\<close>

theorem save_writes_four_files:
  "TD3_save ag fn fs (fn @ ''_critic'') = Some (Module_state (critic_parameters (td3_critic ag)))
   \<and> TD3_save ag fn fs (fn @ ''_critic_optimizer'')
       = Some (Optimizer_state (td3_critic_optimizer ag))
   \<and> TD3_save ag fn fs (fn @ ''_actor'') = Some (Module_state (actor_parameters (td3_actor ag)))
   \<and> TD3_save ag fn fs (fn @ ''_actor_optimizer'')
       = Some (Optimizer_state (td3_actor_optimizer ag))
   \<and> TD3_save ag fn fs |` (- {fn @ ''_critic'', fn @ ''_critic_optimizer'', fn @ ''_actor'',
                               fn @ ''_actor_optimizer''})
       = fs |` (- {fn @ ''_critic'', fn @ ''_critic_optimizer'', fn @ ''_actor'',
                   fn @ ''_actor_optimizer''})
   \<and> BCQ_save b fn fs (fn @ ''_critic'') = Some (Module_state (critic_parameters (bcq_critic b)))
   \<and> BCQ_save b fn fs (fn @ ''_critic_optimizer'')
       = Some (Optimizer_state (bcq_critic_optimizer b))
   \<and> BCQ_save b fn fs (fn @ ''_actor'') = Some (Module_state (actor_parameters (bcq_actor b)))
   \<and> BCQ_save b fn fs (fn @ ''_actor_optimizer'')
       = Some (Optimizer_state (bcq_actor_optimizer b))
   \<and> BCQ_save b fn fs |` (- {fn @ ''_critic'', fn @ ''_critic_optimizer'', fn @ ''_actor'',
                              fn @ ''_actor_optimizer''})
       = fs |` (- {fn @ ''_critic'', fn @ ''_critic_optimizer'', fn @ ''_actor'',
                   fn @ ''_actor_optimizer''})
   \<and> BCQ_save (b\<lparr>bcq_vae := v, bcq_vae_optimizer := vo, bcq_actor_target := ta,
                   bcq_critic_target := tc\<rparr>) fn fs = BCQ_save b fn fs
   \<and> TD3_save (ag\<lparr>td3_actor_target := ta, td3_critic_target := tc\<rparr>) fn fs = TD3_save ag fn fs"
proof -
  have t: "TD3_save ag fn fs |` (- {fn @ ''_critic'', fn @ ''_critic_optimizer'', fn @ ''_actor'',
                               fn @ ''_actor_optimizer''})
       = fs |` (- {fn @ ''_critic'', fn @ ''_critic_optimizer'', fn @ ''_actor'',
                   fn @ ''_actor_optimizer''})"
    by (rule ext) (simp add: restrict_map_def TD3_save_files)
  have b: "BCQ_save b fn fs |` (- {fn @ ''_critic'', fn @ ''_critic_optimizer'', fn @ ''_actor'',
                              fn @ ''_actor_optimizer''})
       = fs |` (- {fn @ ''_critic'', fn @ ''_critic_optimizer'', fn @ ''_actor'',
                   fn @ ''_actor_optimizer''})"
    by (rule ext) (simp add: restrict_map_def BCQ_save_files)
  show ?thesis
    unfolding t b by (simp add: TD3_save_files BCQ_save_files)
qed

text \<open>
  C6 as stated fails for BCQ: two agents that differ in the VAE's parameters and in the
  state of the VAE's optimiser leave exactly the same four files behind.
\<close>

theorem BCQ_save_omits_vae:
  "BCQ_save example_bcq_other_vae ''run'' Map.empty = BCQ_save example_bcq ''run'' Map.empty
   \<and> vae_parameters (bcq_vae example_bcq_other_vae) \<noteq> vae_parameters (bcq_vae example_bcq)
   \<and> adam_state (bcq_vae_optimizer example_bcq_other_vae)
       \<noteq> adam_state (bcq_vae_optimizer example_bcq)
   \<and> dom (BCQ_save example_bcq ''run'' Map.empty)
       = {''run_critic'', ''run_critic_optimizer'', ''run_actor'', ''run_actor_optimizer''}"
  by (auto simp add: BCQ_save_files example_bcq_other_vae_def example_bcq_def example_vae_def)

text \<open>
  C7. Saving an agent under a prefix and loading that prefix into an agent of the same
  configuration (parameter tensors of the same shapes, optimisers over as many parameters)
  raises nothing and gives the critic and the actor the saved parameters and their optimisers
  the saved states; for TD3 and for BCQ.
\<close>

theorem save_load_round_trip:
  assumes "map length (critic_parameters (td3_critic ag)) =
           map length (critic_parameters (td3_critic ag2))"
    and "map length (actor_parameters (td3_actor ag)) =
         map length (actor_parameters (td3_actor ag2))"
    and "adam_n_params (td3_critic_optimizer ag) = adam_n_params (td3_critic_optimizer ag2)"
    and "adam_n_params (td3_actor_optimizer ag) = adam_n_params (td3_actor_optimizer ag2)"
    and "map length (critic_parameters (bcq_critic b)) =
         map length (critic_parameters (bcq_critic b2))"
    and "map length (actor_parameters (bcq_actor b)) =
         map length (actor_parameters (bcq_actor b2))"
    and "adam_n_params (bcq_critic_optimizer b) = adam_n_params (bcq_critic_optimizer b2)"
    and "adam_n_params (bcq_actor_optimizer b) = adam_n_params (bcq_actor_optimizer b2)"
  shows
    "snd (TD3_load ag2 fn (TD3_save ag fn fs)) = None
     \<and> critic_parameters (td3_critic (fst (TD3_load ag2 fn (TD3_save ag fn fs))))
         = critic_parameters (td3_critic ag)
     \<and> td3_critic_optimizer (fst (TD3_load ag2 fn (TD3_save ag fn fs))) = td3_critic_optimizer ag
     \<and> actor_parameters (td3_actor (fst (TD3_load ag2 fn (TD3_save ag fn fs))))
         = actor_parameters (td3_actor ag)
     \<and> td3_actor_optimizer (fst (TD3_load ag2 fn (TD3_save ag fn fs))) = td3_actor_optimizer ag
     \<and> snd (BCQ_load b2 fn (BCQ_save b fn fs)) = None
     \<and> critic_parameters (bcq_critic (fst (BCQ_load b2 fn (BCQ_save b fn fs))))
         = critic_parameters (bcq_critic b)
     \<and> bcq_critic_optimizer (fst (BCQ_load b2 fn (BCQ_save b fn fs))) = bcq_critic_optimizer b
     \<and> actor_parameters (bcq_actor (fst (BCQ_load b2 fn (BCQ_save b fn fs))))
         = actor_parameters (bcq_actor b)
     \<and> bcq_actor_optimizer (fst (BCQ_load b2 fn (BCQ_save b fn fs))) = bcq_actor_optimizer b"
  by (simp add: TD3_load_saved [OF assms(1-4)] BCQ_load_saved [OF assms(5-8)])

theorem save_load_round_trip_witness:
  "map length (critic_parameters (td3_critic example_td3)) =
     map length (critic_parameters (td3_critic example_td3_fresh))
   \<and> map length (actor_parameters (td3_actor example_td3)) =
       map length (actor_parameters (td3_actor example_td3_fresh))
   \<and> adam_n_params (td3_critic_optimizer example_td3)
       = adam_n_params (td3_critic_optimizer example_td3_fresh)
   \<and> adam_n_params (td3_actor_optimizer example_td3)
       = adam_n_params (td3_actor_optimizer example_td3_fresh)
   \<and> map length (critic_parameters (bcq_critic example_bcq)) =
       map length (critic_parameters (bcq_critic example_bcq_fresh))
   \<and> map length (actor_parameters (bcq_actor example_bcq)) =
       map length (actor_parameters (bcq_actor example_bcq_fresh))
   \<and> adam_n_params (bcq_critic_optimizer example_bcq)
       = adam_n_params (bcq_critic_optimizer example_bcq_fresh)
   \<and> adam_n_params (bcq_actor_optimizer example_bcq)
       = adam_n_params (bcq_actor_optimizer example_bcq_fresh)
   \<and> critic_parameters (td3_critic example_td3_fresh) = [[0], [0, 0]]
   \<and> critic_parameters (td3_critic (fst (TD3_load example_td3_fresh ''run''
        (TD3_save example_td3 ''run'' Map.empty)))) = [[4], [5, 6]]
   \<and> td3_actor_optimizer (fst (TD3_load example_td3_fresh ''run''
        (TD3_save example_td3 ''run'' Map.empty))) = \<lparr>adam_n_params = 2, adam_state = 7\<rparr>
   \<and> actor_parameters (bcq_actor (fst (BCQ_load example_bcq_fresh ''run''
        (BCQ_save example_bcq ''run'' Map.empty)))) = [[1, 2], [3]]
   \<and> snd (BCQ_load example_bcq_fresh ''run'' (BCQ_save example_bcq ''run'' Map.empty)) = None"
proof -
  have h: "map length (critic_parameters (td3_critic example_td3)) =
       map length (critic_parameters (td3_critic example_td3_fresh))"
    "map length (actor_parameters (td3_actor example_td3)) =
       map length (actor_parameters (td3_actor example_td3_fresh))"
    "adam_n_params (td3_critic_optimizer example_td3)
       = adam_n_params (td3_critic_optimizer example_td3_fresh)"
    "adam_n_params (td3_actor_optimizer example_td3)
       = adam_n_params (td3_actor_optimizer example_td3_fresh)"
    "map length (critic_parameters (bcq_critic example_bcq)) =
       map length (critic_parameters (bcq_critic example_bcq_fresh))"
    "map length (actor_parameters (bcq_actor example_bcq)) =
       map length (actor_parameters (bcq_actor example_bcq_fresh))"
    "adam_n_params (bcq_critic_optimizer example_bcq)
       = adam_n_params (bcq_critic_optimizer example_bcq_fresh)"
    "adam_n_params (bcq_actor_optimizer example_bcq)
       = adam_n_params (bcq_actor_optimizer example_bcq_fresh)"
    by (simp_all add: example_td3_def example_td3_fresh_def example_bcq_def
        example_bcq_fresh_def example_actor_def example_critic_def)
  have v: "critic_parameters (td3_critic example_td3_fresh) = [[0], [0, 0]]"
    "critic_parameters (td3_critic example_td3) = [[4], [5, 6]]"
    "td3_actor_optimizer example_td3 = \<lparr>adam_n_params = 2, adam_state = 7\<rparr>"
    "actor_parameters (bcq_actor example_bcq) = [[1, 2], [3]]"
    by (simp_all add: example_td3_def example_td3_fresh_def example_bcq_def
        example_actor_def example_critic_def)
  show ?thesis
    using save_load_round_trip [OF h, of "''run''" Map.empty] h
    by (simp add: v)
qed

text \<open>
  C8. With one iteration or more, \<open>BCQ.train\<close> does not run its iterations: the first one
  samples a batch, updates the VAE and then raises \<open>TypeError\<close> in the critic's target;
  critic, actor and their optimisers are left as they were.
\<close>

theorem BCQ_train_stops_in_first_iteration:
  "BCQ_train F ag sample rng (1 + int n) batch_size =
     (ag\<lparr>bcq_vae := (bcq_vae ag)\<lparr>vae_parameters :=
            fst (optim_step F
                   (BCQ_vae_loss F (bcq_vae ag) (fst (sample 0)) (fst (snd (sample 0)))
                      (fst (rng 0)))
                   (vae_parameters (bcq_vae ag)) (adam_state (bcq_vae_optimizer ag)))\<rparr>,
         bcq_vae_optimizer := (bcq_vae_optimizer ag)\<lparr>adam_state :=
            snd (optim_step F
                   (BCQ_vae_loss F (bcq_vae ag) (fst (sample 0)) (fst (snd (sample 0)))
                      (fst (rng 0)))
                   (vae_parameters (bcq_vae ag)) (adam_state (bcq_vae_optimizer ag)))\<rparr>\<rparr>,
      Some TypeError)"
proof -
  have "nat (1 + int n) = Suc n" by simp
  then have "[0..<nat (1 + int n)] = 0 # [1..<Suc n]"
    by (simp add: upt_conv_Cons del: upt_Suc)
  then show ?thesis
    by (simp only: BCQ_train_def BCQ_train_loop_Cons BCQ_train_iteration_raises)
qed

text \<open>
  C9. Provided \<open>max_action\<close> is not negative, every component of the tensor returned by
  \<open>Actor.forward\<close>, hence of the action returned by \<open>TD3.select_action\<close>, and every
  component of the tensor returned by \<open>VAE.decode\<close> lies between \<open>- max_action\<close> and
  \<open>max_action\<close>, whatever the input and the layers: the last layer's output goes through
  \<open>tanh\<close> and is scaled by \<open>max_action\<close>.
\<close>

theorem action_bound:
  "(0 \<le> actor_max_action a \<longrightarrow>
      (\<forall>row \<in> set (Actor_forward F a s). \<forall>v \<in> set row.
         - actor_max_action a \<le> v \<and> v \<le> actor_max_action a))
   \<and> (0 \<le> actor_max_action (td3_actor ag) \<longrightarrow>
      (\<forall>v \<in> set (TD3_select_action F ag obs).
         - actor_max_action (td3_actor ag) \<le> v \<and> v \<le> actor_max_action (td3_actor ag)))
   \<and> (0 \<le> vae_max_action d \<longrightarrow>
      (\<forall>row \<in> set (VAE_decode F d s' z eps). \<forall>v \<in> set row.
         - vae_max_action d \<le> v \<and> v \<le> vae_max_action d))"
proof (intro conjI impI ballI)
  fix row v assume "0 \<le> actor_max_action a" "row \<in> set (Actor_forward F a s)" "v \<in> set row"
  then show "- actor_max_action a \<le> v" "v \<le> actor_max_action a"
    using Actor_forward_bound by blast+
next
  fix v assume m: "0 \<le> actor_max_action (td3_actor ag)"
    and v: "v \<in> set (TD3_select_action F ag obs)"
  from v obtain row where "row \<in> set (Actor_forward F (td3_actor ag) [obs])" "v \<in> set row"
    unfolding TD3_select_action_def by auto
  then show "- actor_max_action (td3_actor ag) \<le> v" "v \<le> actor_max_action (td3_actor ag)"
    using Actor_forward_bound [OF m] by blast+
next
  fix row v assume "0 \<le> vae_max_action d" "row \<in> set (VAE_decode F d s' z eps)" "v \<in> set row"
  then show "- vae_max_action d \<le> v" "v \<le> vae_max_action d"
    using VAE_decode_bound by blast+
qed

theorem action_bound_witness:
  "(0::real) \<le> actor_max_action example_actor
   \<and> Actor_forward example_torch example_actor [[1, - 3]] = [[2 * tanh 1, 0]]
   \<and> - 2 \<le> 2 * tanh (1::real) \<and> 2 * tanh (1::real) \<le> 2
   \<and> TD3_select_action example_torch example_td3 [1, - 3] = [2 * tanh 1, 0]
   \<and> 0 \<le> vae_max_action example_vae
   \<and> VAE_decode example_torch example_vae [[1]] None [[3]] = [[2 * tanh 1, 2 * tanh (1 / 2)]]
   \<and> - 2 \<le> 2 * tanh (1 / 2 :: real) \<and> 2 * tanh (1 / 2 :: real) \<le> 2"
proof -
  have a: "Actor_forward example_torch example_actor [[1, - 3]] = [[2 * tanh 1, 0]]"
    by (simp add: Actor_forward_def example_torch_def example_actor_def relu_def bmap_def)
  have t: "TD3_select_action example_torch example_td3 [1, - 3] = [2 * tanh 1, 0]"
    by (simp add: TD3_select_action_def example_td3_def a)
  have d: "VAE_decode example_torch example_vae [[1]] None [[3]]
           = [[2 * tanh 1, 2 * tanh (1 / 2)]]"
    by (simp add: VAE_decode_def example_torch_def example_vae_def relu_def bmap_def
        cat1_def clamp_def)
  have ma: "actor_max_action example_actor = 2" "actor_max_action (td3_actor example_td3) = 2"
    "vae_max_action example_vae = 2"
    by (simp_all add: example_actor_def example_td3_def example_vae_def)
  show ?thesis
    using action_bound [of example_actor example_torch "[[1, - 3]]" example_td3 "[1, - 3]"
        example_vae "[[1]]" None "[[3]]"]
    unfolding a t d ma by simp
qed

text \<open>
  C10. When \<open>load\<close> returns, the actor and the critic carry the parameters held by the files
  \<open>_actor\<close> and \<open>_critic\<close>, the actor target is that loaded actor and the critic target is that
  loaded critic, and the result does not depend on what the targets were before; files that
  hold state of the agent's shapes make \<open>load\<close> return. What \<open>save\<close> writes does not depend
  on the target networks, which are therefore never restored from values of their own. For
  TD3 and for BCQ.
\<close>

theorem load_resyncs_targets:
  "(snd (TD3_load ag fn fs) = None \<longrightarrow>
      fs (fn @ ''_actor'')
        = Some (Module_state (actor_parameters (td3_actor (fst (TD3_load ag fn fs)))))
      \<and> fs (fn @ ''_critic'')
        = Some (Module_state (critic_parameters (td3_critic (fst (TD3_load ag fn fs)))))
      \<and> td3_actor (fst (TD3_load ag fn fs)) = (td3_actor ag)
           \<lparr>actor_parameters := actor_parameters (td3_actor (fst (TD3_load ag fn fs)))\<rparr>
      \<and> td3_critic (fst (TD3_load ag fn fs)) = (td3_critic ag)
           \<lparr>critic_parameters := critic_parameters (td3_critic (fst (TD3_load ag fn fs)))\<rparr>
      \<and> td3_actor_target (fst (TD3_load ag fn fs)) = td3_actor (fst (TD3_load ag fn fs))
      \<and> td3_critic_target (fst (TD3_load ag fn fs)) = td3_critic (fst (TD3_load ag fn fs))
      \<and> TD3_load (ag\<lparr>td3_actor_target := ta, td3_critic_target := tc\<rparr>) fn fs
          = TD3_load ag fn fs)
   \<and> (snd (BCQ_load b fn' fs') = None \<longrightarrow>
      fs' (fn' @ ''_actor'')
        = Some (Module_state (actor_parameters (bcq_actor (fst (BCQ_load b fn' fs')))))
      \<and> fs' (fn' @ ''_critic'')
        = Some (Module_state (critic_parameters (bcq_critic (fst (BCQ_load b fn' fs')))))
      \<and> bcq_actor (fst (BCQ_load b fn' fs')) = (bcq_actor b)
           \<lparr>actor_parameters := actor_parameters (bcq_actor (fst (BCQ_load b fn' fs')))\<rparr>
      \<and> bcq_critic (fst (BCQ_load b fn' fs')) = (bcq_critic b)
           \<lparr>critic_parameters := critic_parameters (bcq_critic (fst (BCQ_load b fn' fs')))\<rparr>
      \<and> bcq_actor_target (fst (BCQ_load b fn' fs')) = bcq_actor (fst (BCQ_load b fn' fs'))
      \<and> bcq_critic_target (fst (BCQ_load b fn' fs')) = bcq_critic (fst (BCQ_load b fn' fs'))
      \<and> BCQ_load (b\<lparr>bcq_actor_target := ta, bcq_critic_target := tc\<rparr>) fn' fs'
          = BCQ_load b fn' fs')
   \<and> (fs (fn @ ''_critic'') = Some (Module_state pc)
       \<and> map length pc = map length (critic_parameters (td3_critic ag))
       \<and> fs (fn @ ''_critic_optimizer'') = Some (Optimizer_state oc)
       \<and> adam_n_params oc = adam_n_params (td3_critic_optimizer ag)
       \<and> fs (fn @ ''_actor'') = Some (Module_state pa)
       \<and> map length pa = map length (actor_parameters (td3_actor ag))
       \<and> fs (fn @ ''_actor_optimizer'') = Some (Optimizer_state oa)
       \<and> adam_n_params oa = adam_n_params (td3_actor_optimizer ag) \<longrightarrow>
      snd (TD3_load ag fn fs) = None
      \<and> td3_actor_target (fst (TD3_load ag fn fs)) = (td3_actor ag)\<lparr>actor_parameters := pa\<rparr>
      \<and> td3_critic_target (fst (TD3_load ag fn fs)) = (td3_critic ag)\<lparr>critic_parameters := pc\<rparr>)
   \<and> (fs' (fn' @ ''_critic'') = Some (Module_state pc')
       \<and> map length pc' = map length (critic_parameters (bcq_critic b))
       \<and> fs' (fn' @ ''_critic_optimizer'') = Some (Optimizer_state oc')
       \<and> adam_n_params oc' = adam_n_params (bcq_critic_optimizer b)
       \<and> fs' (fn' @ ''_actor'') = Some (Module_state pa')
       \<and> map length pa' = map length (actor_parameters (bcq_actor b))
       \<and> fs' (fn' @ ''_actor_optimizer'') = Some (Optimizer_state oa')
       \<and> adam_n_params oa' = adam_n_params (bcq_actor_optimizer b) \<longrightarrow>
      snd (BCQ_load b fn' fs') = None
      \<and> bcq_actor_target (fst (BCQ_load b fn' fs')) = (bcq_actor b)\<lparr>actor_parameters := pa'\<rparr>
      \<and> bcq_critic_target (fst (BCQ_load b fn' fs')) = (bcq_critic b)\<lparr>critic_parameters := pc'\<rparr>)
   \<and> TD3_save (ag\<lparr>td3_actor_target := ta, td3_critic_target := tc\<rparr>) fn fs = TD3_save ag fn fs
   \<and> BCQ_save (b\<lparr>bcq_actor_target := ta, bcq_critic_target := tc\<rparr>) fn' fs' = BCQ_save b fn' fs'"
proof (intro conjI impI)
  assume "snd (TD3_load ag fn fs) = None"
  note r = TD3_load_returns [OF this, where ta = ta and tc = tc]
  from r show "fs (fn @ ''_actor'')
        = Some (Module_state (actor_parameters (td3_actor (fst (TD3_load ag fn fs)))))" by blast
  from r show "fs (fn @ ''_critic'')
        = Some (Module_state (critic_parameters (td3_critic (fst (TD3_load ag fn fs)))))" by blast
  from r show "td3_actor (fst (TD3_load ag fn fs)) = (td3_actor ag)
           \<lparr>actor_parameters := actor_parameters (td3_actor (fst (TD3_load ag fn fs)))\<rparr>" by blast
  from r show "td3_critic (fst (TD3_load ag fn fs)) = (td3_critic ag)
           \<lparr>critic_parameters := critic_parameters (td3_critic (fst (TD3_load ag fn fs)))\<rparr>"
    by blast
  from r show "td3_actor_target (fst (TD3_load ag fn fs)) = td3_actor (fst (TD3_load ag fn fs))"
    by blast
  from r show "td3_critic_target (fst (TD3_load ag fn fs)) = td3_critic (fst (TD3_load ag fn fs))"
    by blast
  from r show "TD3_load (ag\<lparr>td3_actor_target := ta, td3_critic_target := tc\<rparr>) fn fs
          = TD3_load ag fn fs" by blast
next
  assume "snd (BCQ_load b fn' fs') = None"
  note r = BCQ_load_returns [OF this, where ta = ta and tc = tc]
  from r show "fs' (fn' @ ''_actor'')
        = Some (Module_state (actor_parameters (bcq_actor (fst (BCQ_load b fn' fs')))))" by blast
  from r show "fs' (fn' @ ''_critic'')
        = Some (Module_state (critic_parameters (bcq_critic (fst (BCQ_load b fn' fs')))))" by blast
  from r show "bcq_actor (fst (BCQ_load b fn' fs')) = (bcq_actor b)
           \<lparr>actor_parameters := actor_parameters (bcq_actor (fst (BCQ_load b fn' fs')))\<rparr>" by blast
  from r show "bcq_critic (fst (BCQ_load b fn' fs')) = (bcq_critic b)
           \<lparr>critic_parameters := critic_parameters (bcq_critic (fst (BCQ_load b fn' fs')))\<rparr>"
    by blast
  from r show "bcq_actor_target (fst (BCQ_load b fn' fs')) = bcq_actor (fst (BCQ_load b fn' fs'))"
    by blast
  from r show "bcq_critic_target (fst (BCQ_load b fn' fs')) = bcq_critic (fst (BCQ_load b fn' fs'))"
    by blast
  from r show "BCQ_load (b\<lparr>bcq_actor_target := ta, bcq_critic_target := tc\<rparr>) fn' fs'
          = BCQ_load b fn' fs'" by blast
next
  assume a: "fs (fn @ ''_critic'') = Some (Module_state pc)
       \<and> map length pc = map length (critic_parameters (td3_critic ag))
       \<and> fs (fn @ ''_critic_optimizer'') = Some (Optimizer_state oc)
       \<and> adam_n_params oc = adam_n_params (td3_critic_optimizer ag)
       \<and> fs (fn @ ''_actor'') = Some (Module_state pa)
       \<and> map length pa = map length (actor_parameters (td3_actor ag))
       \<and> fs (fn @ ''_actor_optimizer'') = Some (Optimizer_state oa)
       \<and> adam_n_params oa = adam_n_params (td3_actor_optimizer ag)"
  then have r: "snd (TD3_load ag fn fs) = None
     \<and> td3_actor_target (fst (TD3_load ag fn fs)) = (td3_actor ag)\<lparr>actor_parameters := pa\<rparr>
     \<and> td3_critic_target (fst (TD3_load ag fn fs)) = (td3_critic ag)\<lparr>critic_parameters := pc\<rparr>"
    by (intro TD3_load_fitting) blast+
  from r show "snd (TD3_load ag fn fs) = None" by blast
  from r show "td3_actor_target (fst (TD3_load ag fn fs)) = (td3_actor ag)\<lparr>actor_parameters := pa\<rparr>"
    by blast
  from r show "td3_critic_target (fst (TD3_load ag fn fs))
               = (td3_critic ag)\<lparr>critic_parameters := pc\<rparr>" by blast
next
  assume a: "fs' (fn' @ ''_critic'') = Some (Module_state pc')
       \<and> map length pc' = map length (critic_parameters (bcq_critic b))
       \<and> fs' (fn' @ ''_critic_optimizer'') = Some (Optimizer_state oc')
       \<and> adam_n_params oc' = adam_n_params (bcq_critic_optimizer b)
       \<and> fs' (fn' @ ''_actor'') = Some (Module_state pa')
       \<and> map length pa' = map length (actor_parameters (bcq_actor b))
       \<and> fs' (fn' @ ''_actor_optimizer'') = Some (Optimizer_state oa')
       \<and> adam_n_params oa' = adam_n_params (bcq_actor_optimizer b)"
  then have r: "snd (BCQ_load b fn' fs') = None
     \<and> bcq_actor_target (fst (BCQ_load b fn' fs')) = (bcq_actor b)\<lparr>actor_parameters := pa'\<rparr>
     \<and> bcq_critic_target (fst (BCQ_load b fn' fs')) = (bcq_critic b)\<lparr>critic_parameters := pc'\<rparr>"
    by (intro BCQ_load_fitting) blast+
  from r show "snd (BCQ_load b fn' fs') = None" by blast
  from r show "bcq_actor_target (fst (BCQ_load b fn' fs')) = (bcq_actor b)\<lparr>actor_parameters := pa'\<rparr>"
    by blast
  from r show "bcq_critic_target (fst (BCQ_load b fn' fs'))
               = (bcq_critic b)\<lparr>critic_parameters := pc'\<rparr>" by blast
next
  show "TD3_save (ag\<lparr>td3_actor_target := ta, td3_critic_target := tc\<rparr>) fn fs = TD3_save ag fn fs"
    by (simp add: TD3_save_files)
  show "BCQ_save (b\<lparr>bcq_actor_target := ta, bcq_critic_target := tc\<rparr>) fn' fs' = BCQ_save b fn' fs'"
    by (simp add: BCQ_save_files)
qed

theorem load_resyncs_targets_witness:
  "snd (TD3_load example_td3_stale ''run'' (TD3_save example_td3 ''run'' Map.empty)) = None
   \<and> actor_parameters (td3_actor_target example_td3_stale) = [[7, 7], [7]]
   \<and> actor_parameters (td3_actor_target example_td3) = [[0, 0], [1]]
   \<and> actor_parameters (td3_actor_target (fst (TD3_load example_td3_stale ''run''
        (TD3_save example_td3 ''run'' Map.empty)))) = [[1, 2], [3]]
   \<and> critic_parameters (td3_critic_target (fst (TD3_load example_td3_stale ''run''
        (TD3_save example_td3 ''run'' Map.empty)))) = [[4], [5, 6]]
   \<and> snd (BCQ_load example_bcq_stale ''run'' (BCQ_save example_bcq ''run'' Map.empty)) = None
   \<and> critic_parameters (bcq_critic_target example_bcq_stale) = [[8], [8, 8]]
   \<and> critic_parameters (bcq_critic_target example_bcq) = [[2], [3, 3]]
   \<and> actor_parameters (bcq_actor_target (fst (BCQ_load example_bcq_stale ''run''
        (BCQ_save example_bcq ''run'' Map.empty)))) = [[1, 2], [3]]
   \<and> critic_parameters (bcq_critic_target (fst (BCQ_load example_bcq_stale ''run''
        (BCQ_save example_bcq ''run'' Map.empty)))) = [[4], [5, 6]]"
proof -
  let ?fs = "TD3_save example_td3 ''run'' Map.empty"
  let ?fb = "BCQ_save example_bcq ''run'' Map.empty"
  have ft: "?fs (''run'' @ ''_critic'') = Some (Module_state [[4], [5, 6]])"
    "?fs (''run'' @ ''_critic_optimizer'') = Some (Optimizer_state \<lparr>adam_n_params = 2, adam_state = 9\<rparr>)"
    "?fs (''run'' @ ''_actor'') = Some (Module_state [[1, 2], [3]])"
    "?fs (''run'' @ ''_actor_optimizer'') = Some (Optimizer_state \<lparr>adam_n_params = 2, adam_state = 7\<rparr>)"
    by (simp_all add: TD3_save_files example_td3_def example_actor_def example_critic_def)
  have fb: "?fb (''run'' @ ''_critic'') = Some (Module_state [[4], [5, 6]])"
    "?fb (''run'' @ ''_critic_optimizer'') = Some (Optimizer_state \<lparr>adam_n_params = 2, adam_state = 9\<rparr>)"
    "?fb (''run'' @ ''_actor'') = Some (Module_state [[1, 2], [3]])"
    "?fb (''run'' @ ''_actor_optimizer'') = Some (Optimizer_state \<lparr>adam_n_params = 2, adam_state = 7\<rparr>)"
    by (simp_all add: BCQ_save_files example_bcq_def example_actor_def example_critic_def)
  have st: "critic_parameters (td3_critic example_td3_stale) = [[0], [0, 0]]"
    "adam_n_params (td3_critic_optimizer example_td3_stale) = 2"
    "actor_parameters (td3_actor example_td3_stale) = [[0, 0], [0]]"
    "adam_n_params (td3_actor_optimizer example_td3_stale) = 2"
    "td3_actor example_td3_stale = example_actor\<lparr>actor_parameters := [[0, 0], [0]]\<rparr>"
    "td3_critic example_td3_stale = example_critic\<lparr>critic_parameters := [[0], [0, 0]]\<rparr>"
    "actor_parameters (td3_actor_target example_td3_stale) = [[7, 7], [7]]"
    "actor_parameters (td3_actor_target example_td3) = [[0, 0], [1]]"
    by (simp_all add: example_td3_stale_def example_td3_fresh_def example_td3_def
        example_actor_def example_critic_def)
  have sb: "critic_parameters (bcq_critic example_bcq_stale) = [[0], [0, 0]]"
    "adam_n_params (bcq_critic_optimizer example_bcq_stale) = 2"
    "actor_parameters (bcq_actor example_bcq_stale) = [[0, 0], [0]]"
    "adam_n_params (bcq_actor_optimizer example_bcq_stale) = 2"
    "bcq_actor example_bcq_stale = example_actor\<lparr>actor_parameters := [[0, 0], [0]]\<rparr>"
    "bcq_critic example_bcq_stale = example_critic\<lparr>critic_parameters := [[0], [0, 0]]\<rparr>"
    "critic_parameters (bcq_critic_target example_bcq_stale) = [[8], [8, 8]]"
    "critic_parameters (bcq_critic_target example_bcq) = [[2], [3, 3]]"
    by (simp_all add: example_bcq_stale_def example_bcq_fresh_def example_bcq_def
        example_actor_def example_critic_def)
  show ?thesis
    using load_resyncs_targets [where ag = example_td3_stale and fn = "''run''" and fs = ?fs
        and b = example_bcq_stale and fn' = "''run''" and fs' = ?fb
        and pc = "[[4], [5, 6]]" and oc = "\<lparr>adam_n_params = 2, adam_state = 9\<rparr>"
        and pa = "[[1, 2], [3]]" and oa = "\<lparr>adam_n_params = 2, adam_state = 7\<rparr>"
        and pc' = "[[4], [5, 6]]" and oc' = "\<lparr>adam_n_params = 2, adam_state = 9\<rparr>"
        and pa' = "[[1, 2], [3]]" and oa' = "\<lparr>adam_n_params = 2, adam_state = 7\<rparr>"]
    unfolding ft fb by (simp add: st sb)
qed

end
